theory Spec2Isabelle
  imports Main
begin

section \<open>The file-backed election store of \<open>k8s_elections/models/meta.py\<close>\<close>

text \<open>
  The module defines the class \<open>Meta\<close> (an in-memory store \<open>self.store\<close> with a key list
  \<open>self.keys\<close>, and the readers \<open>all\<close>, \<open>where\<close>, \<open>get\<close>) and its subclass \<open>Election\<close>
  (key discovery, full refresh, fallback read, candidate and voter queries). The methods
  are embedded as HOL functions over an explicit object state, an explicit file system and
  an explicit record of the collaborators the module calls but does not define
  (\<open>os.system\<close> running git, and the functions of \<open>k8s_elections.models.utils\<close>).
  A Python exception is the \<open>Inl\<close> branch of a sum.
\<close>

subsection \<open>Values, records and exceptions\<close>

text \<open>
  The Python values a parsed document can hold. On this domain Python's \<open>==\<close> is
  structural and coincides with HOL equality (no booleans or floats are modelled, which
  Python would identify with integers). \<open>VTime\<close> is a \<open>datetime\<close>, as seconds.
\<close>

datatype pyval = VNone | VInt int | VStr string | VTime int | VList "pyval list"

text \<open>A record (an election, a candidate) is a Python \<open>dict\<close> from field names to values.\<close>

type_synonym election = "string \<rightharpoonup> pyval"

datatype exn =
    NotFound404
  | KeyError
  | FileNotFoundError
  | NotADirectoryError
  | IsADirectoryError
  | ParseError
  | OtherError string

subsection \<open>Paths and the file system\<close>

type_synonym path = string

text \<open>
  A path, as it is spelled, names a regular file with its text, a directory with the names
  \<open>os.listdir\<close> returns for it (in that order), or nothing. Paths are not normalised:
  two spellings of one location are two arguments of the map.
\<close>

datatype node = File string | Dir "string list"

type_synonym filesystem = "path \<rightharpoonup> node"

text \<open>\<open>posixpath.join\<close>: an absolute component restarts the path, otherwise components
  are joined by one slash unless the path so far is empty or already ends in a slash.\<close>

definition join2 :: "path \<Rightarrow> path \<Rightarrow> path" where
  "join2 a b =
     (if b \<noteq> [] \<and> hd b = CHR ''/'' then b
      else if a = [] \<or> last a = CHR ''/'' then a @ b
      else a @ ''/'' @ b)"

fun os_path_join :: "path \<Rightarrow> path list \<Rightarrow> path" where
  "os_path_join a [] = a"
| "os_path_join a (b # bs) = os_path_join (join2 a b) bs"

text \<open>\<open>str.split(sep)\<close> for a one-character separator; the result is never empty.\<close>

fun split_on :: "char \<Rightarrow> string \<Rightarrow> string list" where
  "split_on c [] = [[]]"
| "split_on c (x # xs) =
     (if x = c then [] # split_on c xs
      else (case split_on c xs of
              [] \<Rightarrow> [[x]]
            | y # ys \<Rightarrow> (x # y) # ys))"

text \<open>\<open>sub in s\<close> on strings.\<close>

fun str_contains :: "string \<Rightarrow> string \<Rightarrow> bool" where
  "str_contains sub [] = (sub = [])"
| "str_contains sub (x # xs) =
     (take (length sub) (x # xs) = sub \<or> str_contains sub xs)"

text \<open>
  The operating system resolves a path component by component. \<open>ancestors [] p\<close> lists
  the proper prefixes of \<open>p\<close> that end just before a slash. When one of them is a regular
  file the resolution stops there with \<open>ENOTDIR\<close>, whatever lies below; otherwise a path
  that names nothing gives \<open>ENOENT\<close>.
\<close>

fun ancestors :: "path \<Rightarrow> path \<Rightarrow> path list" where
  "ancestors pre [] = []"
| "ancestors pre (c # cs) =
     (if c = CHR ''/'' then pre # ancestors (pre @ [c]) cs
      else ancestors (pre @ [c]) cs)"

definition is_regular_file :: "filesystem \<Rightarrow> path \<Rightarrow> bool" where
  "is_regular_file f q = (case f q of Some (File _) \<Rightarrow> True | _ \<Rightarrow> False)"

definition resolve :: "filesystem \<Rightarrow> path \<Rightarrow> exn + node" where
  "resolve f p =
     (if list_ex (is_regular_file f) (ancestors [] p) then Inl NotADirectoryError
      else (case f p of None \<Rightarrow> Inl FileNotFoundError | Some n \<Rightarrow> Inr n))"

text \<open>\<open>os.path.isdir\<close> and \<open>os.path.exists\<close> answer \<open>False\<close> where the resolution fails.\<close>

definition os_path_isdir :: "filesystem \<Rightarrow> path \<Rightarrow> bool" where
  "os_path_isdir f p = (case resolve f p of Inr (Dir _) \<Rightarrow> True | _ \<Rightarrow> False)"

definition os_path_exists :: "filesystem \<Rightarrow> path \<Rightarrow> bool" where
  "os_path_exists f p = (case resolve f p of Inr _ \<Rightarrow> True | Inl _ \<Rightarrow> False)"

definition os_listdir :: "filesystem \<Rightarrow> path \<Rightarrow> exn + string list" where
  "os_listdir f p =
     (case resolve f p of
        Inl x \<Rightarrow> Inl x
      | Inr (File _) \<Rightarrow> Inl NotADirectoryError
      | Inr (Dir names) \<Rightarrow> Inr names)"

text \<open>\<open>open(p).read()\<close>; file contents are taken as already decoded text.\<close>

definition open_read :: "filesystem \<Rightarrow> path \<Rightarrow> exn + string" where
  "open_read f p =
     (case resolve f p of
        Inl x \<Rightarrow> Inl x
      | Inr (Dir _) \<Rightarrow> Inl IsADirectoryError
      | Inr (File text) \<Rightarrow> Inr text)"

subsection \<open>The world outside the object and the collaborators\<close>

text \<open>
  The world holds the file system, the wall clock and the SQL session (opaque).
  One call of a method reads the clock at one instant.
\<close>

record 'db world =
  fs :: filesystem
  now :: int
  db :: 'db

text \<open>
  The collaborators are parameters: none of them is defined in \<open>meta.py\<close>.
  \<open>git_clone remote dest\<close> and \<open>git_pull dest\<close> stand for the two \<open>os.system\<close> command
  lines; each returns the exit status \<open>os.system\<close> returns and the file system it leaves.
  The others are the functions of \<open>utils\<close>; the YAML reader is typed to return a mapping.
  \<open>renderMD x is_file\<close> has the second positional argument of the source's call
  \<open>renderMD(text, False)\<close>, which is \<open>True\<close> when it is left out.
\<close>

record ('db, 'log) collaborators =
  git_clone :: "string \<Rightarrow> path \<Rightarrow> filesystem \<Rightarrow> int \<times> filesystem"
  git_pull :: "path \<Rightarrow> filesystem \<Rightarrow> int \<times> filesystem"
  parse_yaml_from_file :: "filesystem \<Rightarrow> path \<Rightarrow> exn + election"
  check_election_status :: "int \<Rightarrow> election \<Rightarrow> exn + pyval"
  renderMD :: "filesystem \<Rightarrow> string \<Rightarrow> bool \<Rightarrow> exn + string"
  extract_candidate_info :: "string \<Rightarrow> exn + election"
  extract_candidate_description :: "string \<Rightarrow> exn + string"
  sync_db_with_meta :: "'db \<Rightarrow> election list \<Rightarrow> (exn + 'log) \<times> 'db"

subsection \<open>The object state\<close>

text \<open>
  \<open>self.store\<close> is a Python \<open>dict\<close>, which enumerates in insertion order: an association
  list in which \<open>dict_set\<close> overwrites an existing key in place and appends a new one.
  \<open>self_path\<close> is the attribute \<open>self._path\<close>.
\<close>

type_synonym 'v dict = "(string \<times> 'v) list"

fun dict_set :: "'v dict \<Rightarrow> string \<Rightarrow> 'v \<Rightarrow> 'v dict" where
  "dict_set [] k v = [(k, v)]"
| "dict_set ((k', v') # d) k v =
     (if k' = k then (k, v) # d else (k', v') # dict_set d k v)"

record election_state =
  META :: path
  REMOTE :: string
  BRANCH :: string
  SECRET :: string
  store :: "election dict"
  keys :: "string list"
  self_path :: path

subsection \<open>The class \<open>Meta\<close>\<close>

text \<open>
  The constructor of \<open>Election\<close> (which runs the one of \<open>Meta\<close>): both containers start
  empty, and the repository is cloned when the directory is absent; the exit status of
  that command is not looked at. The argument \<open>p\<close> is \<open>os.path.abspath(meta['PATH'])\<close>.
\<close>

definition Election_init ::
  "('db, 'log) collaborators \<Rightarrow> path \<Rightarrow> string \<Rightarrow> string \<Rightarrow> string \<Rightarrow> filesystem
     \<Rightarrow> election_state \<times> filesystem" where
  "Election_init U p remote branch secret f =
     (let f' = (if \<not> os_path_isdir f p then snd (git_clone U remote p f) else f)
      in (\<lparr>META = p, REMOTE = remote, BRANCH = branch, SECRET = secret,
           store = [], keys = [], self_path = os_path_join p [''elections'']\<rparr>, f'))"

text \<open>\<open>all\<close>: \<open>[self.store[key] for key in self.store.keys()]\<close>. Every key enumerated is
  present, so the lookup cannot raise.\<close>

definition all :: "election_state \<Rightarrow> election list" where
  "all self = map (\<lambda>key. the (map_of (store self) key)) (map fst (store self))"

text \<open>\<open>where\<close>: \<open>[r for r in self.all() if r[key] == value]\<close>. The subscript \<open>r[key]\<close>
  raises \<open>KeyError\<close> on a record without the field, which ends the comprehension.\<close>

fun where_filter :: "election list \<Rightarrow> string \<Rightarrow> pyval \<Rightarrow> exn + election list" where
  "where_filter [] key value = Inr []"
| "where_filter (r # rs) key value =
     (case r key of
        None \<Rightarrow> Inl KeyError
      | Some v \<Rightarrow>
          (case where_filter rs key value of
             Inl x \<Rightarrow> Inl x
           | Inr out \<Rightarrow> Inr (if v = value then r # out else out)))"

definition where_records :: "election_state \<Rightarrow> string \<Rightarrow> pyval \<Rightarrow> exn + election list" where
  "where_records self key value = where_filter (all self) key value"

subsection \<open>The class \<open>Election\<close>\<close>

text \<open>\<open>build_election_from_yaml\<close> reads \<open>election.yaml\<close> under the path it is given, then
  sets the four computed fields in the order of the source.\<close>

definition build_election_from_yaml ::
  "('db, 'log) collaborators \<Rightarrow> 'db world \<Rightarrow> path \<Rightarrow> exn + election" where
  "build_election_from_yaml U w p =
     (case parse_yaml_from_file U (fs w) (os_path_join p [''election.yaml'']) of
        Inl x \<Rightarrow> Inl x
      | Inr election \<Rightarrow>
     (case check_election_status U (now w) election of
        Inl x \<Rightarrow> Inl x
      | Inr status \<Rightarrow>
     (case renderMD U (fs w) (os_path_join p [''election_desc.md'']) True of
        Inl x \<Rightarrow> Inl x
      | Inr description \<Rightarrow>
     (case renderMD U (fs w) (os_path_join p [''results.md'']) True of
        Inl x \<Rightarrow> Inl x
      | Inr results \<Rightarrow>
          Inr (election
                (''status'' \<mapsto> status,
                 ''key'' \<mapsto> VStr (last (split_on CHR ''/'' p)),
                 ''description'' \<mapsto> VStr description,
                 ''results'' \<mapsto> VStr results))))))"

text \<open>\<open>fallback\<close> hands \<open>build_election_from_yaml\<close> the path of the YAML file itself.\<close>

definition fallback ::
  "('db, 'log) collaborators \<Rightarrow> 'db world \<Rightarrow> election_state \<Rightarrow> string \<Rightarrow> exn + election" where
  "fallback U w self key =
     build_election_from_yaml U w (os_path_join (self_path self) [key, ''election.yaml''])"

text \<open>\<open>get\<close>: \<open>F.abort(404)\<close> raises. The object is returned beside the result, as the
  method leaves it.\<close>

definition get ::
  "('db, 'log) collaborators \<Rightarrow> 'db world \<Rightarrow> election_state \<Rightarrow> string
     \<Rightarrow> (exn + election) \<times> election_state" where
  "get U w self key =
     (if key \<notin> set (keys self) then (Inl NotFound404, self)
      else (case map_of (store self) key of
              Some r \<Rightarrow> (Inr r, self)
            | None \<Rightarrow> (fallback U w self key, self)))"

text \<open>\<open>update_keys\<close>: the subdirectories of \<open>self._path\<close>; \<open>os.listdir\<close> may raise, and
  then \<open>self.keys\<close> is not assigned.\<close>

definition update_keys :: "'db world \<Rightarrow> election_state \<Rightarrow> (exn + unit) \<times> election_state" where
  "update_keys w self =
     (case os_listdir (fs w) (self_path self) of
        Inl x \<Rightarrow> (Inl x, self)
      | Inr names \<Rightarrow>
          (Inr (),
           self\<lparr>keys :=
             filter (\<lambda>k. os_path_isdir (fs w) (os_path_join (self_path self) [k])) names\<rparr>))"

text \<open>\<open>query\<close>: the loop assigns \<open>self.store[e]\<close> key by key; an exception of the parser
  leaves the loop with the assignments made so far.\<close>

fun query_loop ::
  "('db, 'log) collaborators \<Rightarrow> 'db world \<Rightarrow> string list \<Rightarrow> election_state
     \<Rightarrow> (exn + unit) \<times> election_state" where
  "query_loop U w [] self = (Inr (), self)"
| "query_loop U w (e # es) self =
     (case build_election_from_yaml U w (os_path_join (self_path self) [e]) of
        Inl x \<Rightarrow> (Inl x, self)
      | Inr r \<Rightarrow> query_loop U w es (self\<lparr>store := dict_set (store self) e r\<rparr>))"

definition query ::
  "('db, 'log) collaborators \<Rightarrow> 'db world \<Rightarrow> election_state
     \<Rightarrow> (exn + unit) \<times> election_state" where
  "query U w self = query_loop U w (keys self) self"

text \<open>\<open>update_store\<close>: run git (clone when \<open>self.META\<close> is not a directory, pull otherwise)
  and drop the value \<open>os.system\<close> returns; then \<open>update_keys\<close>, \<open>query\<close>, and the
  reconciliation of \<open>self.all()\<close> with the database, whose log is returned.\<close>

definition run_git ::
  "('db, 'log) collaborators \<Rightarrow> election_state \<Rightarrow> filesystem \<Rightarrow> int \<times> filesystem" where
  "run_git U self f =
     (if \<not> os_path_isdir f (META self) then git_clone U (REMOTE self) (META self) f
      else git_pull U (META self) f)"

definition update_store ::
  "('db, 'log) collaborators \<Rightarrow> 'db world \<Rightarrow> election_state
     \<Rightarrow> (exn + 'log) \<times> election_state \<times> 'db world" where
  "update_store U w self =
     (let w1 = w\<lparr>fs := snd (run_git U self (fs w))\<rparr> in
      case update_keys w1 self of
        (Inl x, self1) \<Rightarrow> (Inl x, self1, w1)
      | (Inr _, self1) \<Rightarrow>
     (case query U w1 self1 of
        (Inl x, self2) \<Rightarrow> (Inl x, self2, w1)
      | (Inr _, self2) \<Rightarrow>
     (case sync_db_with_meta U (db w1) (all self2) of
        (Inl x, db') \<Rightarrow> (Inl x, self2, w1\<lparr>db := db'\<rparr>)
      | (Inr log, db') \<Rightarrow> (Inr log, self2, w1\<lparr>db := db'\<rparr>))))"

text \<open>\<open>voters\<close>: the YAML reader on \<open>voters.yaml\<close>, nothing kept.\<close>

definition voters ::
  "('db, 'log) collaborators \<Rightarrow> 'db world \<Rightarrow> election_state \<Rightarrow> string \<Rightarrow> exn + election" where
  "voters U w self eid =
     parse_yaml_from_file U (fs w) (os_path_join (self_path self) [eid, ''voters.yaml''])"

text \<open>\<open>candidates\<close>: every entry of the election's directory whose name contains
  \<open>candidate\<close> is opened and parsed; its \<open>key\<close> is the \<open>ID\<close> field of the parsed
  information (\<open>KeyError\<close> without one). \<open>result\<close> is the list being appended to.\<close>

fun candidates_loop ::
  "('db, 'log) collaborators \<Rightarrow> 'db world \<Rightarrow> election_state \<Rightarrow> string \<Rightarrow> string list
     \<Rightarrow> election list \<Rightarrow> exn + election list" where
  "candidates_loop U w self eid [] result = Inr result"
| "candidates_loop U w self eid (f # files) result =
     (if str_contains ''candidate'' f then
        (case open_read (fs w) (os_path_join (self_path self) [eid, f]) of
           Inl x \<Rightarrow> Inl x
         | Inr md \<Rightarrow>
        (case extract_candidate_info U md of
           Inl x \<Rightarrow> Inl x
         | Inr candidate \<Rightarrow>
        (case candidate ''ID'' of
           None \<Rightarrow> Inl KeyError
         | Some i \<Rightarrow>
             candidates_loop U w self eid files (result @ [candidate(''key'' \<mapsto> i)]))))
      else candidates_loop U w self eid files result)"

definition candidates ::
  "('db, 'log) collaborators \<Rightarrow> 'db world \<Rightarrow> election_state \<Rightarrow> string
     \<Rightarrow> exn + election list" where
  "candidates U w self eid =
     (case os_listdir (fs w) (os_path_join (self_path self) [eid]) of
        Inl x \<Rightarrow> Inl x
      | Inr files \<Rightarrow> candidates_loop U w self eid files [])"

text \<open>\<open>candidate\<close>: one file, named from \<open>cid\<close>; 404 when the path does not exist.\<close>

definition candidate ::
  "('db, 'log) collaborators \<Rightarrow> 'db world \<Rightarrow> election_state \<Rightarrow> string \<Rightarrow> string
     \<Rightarrow> exn + election" where
  "candidate U w self eid cid =
     (let p = os_path_join (self_path self) [eid, ''candidate-'' @ cid @ ''.md''] in
      if \<not> os_path_exists (fs w) p then Inl NotFound404
      else
        (case open_read (fs w) p of
           Inl x \<Rightarrow> Inl x
         | Inr md \<Rightarrow>
        (case extract_candidate_info U md of
           Inl x \<Rightarrow> Inl x
         | Inr info \<Rightarrow>
        (case extract_candidate_description U md of
           Inl x \<Rightarrow> Inl x
         | Inr text \<Rightarrow>
        (case renderMD U (fs w) text False of
           Inl x \<Rightarrow> Inl x
         | Inr html \<Rightarrow>
             Inr (info
                   (''key'' \<mapsto> VStr cid,
                    ''election_key'' \<mapsto> VStr eid,
                    ''description'' \<mapsto> VStr html)))))))"

subsection \<open>The status of an election\<close>

datatype status = UPCOMING | ONGOING | ENDED

text \<open>
  Modelled from the spec: \<open>utils.check_election_status\<close> is called by
  \<open>build_election_from_yaml\<close> but its module is not among the sources. The specification
  gives the rule for the current time and the record fields \<open>start_time\<close>, \<open>end_time\<close>:
  \<open>now < start_time\<close> gives \<open>UPCOMING\<close>, \<open>start_time \<le> now \<le> end_time\<close> gives \<open>ONGOING\<close>,
  \<open>now > end_time\<close> gives \<open>ENDED\<close>. The labels are left to the implementation; here each
  is the string of its name. The specification says nothing of a record without the two
  boundaries; reading a missing field is a \<open>KeyError\<close> here.
\<close>

definition election_status :: "int \<Rightarrow> int \<Rightarrow> int \<Rightarrow> status" where
  "election_status t start_time end_time =
     (if t < start_time then UPCOMING
      else if start_time \<le> t \<and> t \<le> end_time then ONGOING
      else ENDED)"

fun status_label :: "status \<Rightarrow> pyval" where
  "status_label UPCOMING = VStr ''UPCOMING''"
| "status_label ONGOING = VStr ''ONGOING''"
| "status_label ENDED = VStr ''ENDED''"

definition check_election_status_spec :: "int \<Rightarrow> election \<Rightarrow> exn + pyval" where
  "check_election_status_spec t e =
     (case e ''start_time'' of
        Some (VTime t1) \<Rightarrow>
          (case e ''end_time'' of
             Some (VTime t2) \<Rightarrow> Inr (status_label (election_status t t1 t2))
           | Some _ \<Rightarrow> Inl (OtherError ''TypeError'')
           | None \<Rightarrow> Inl KeyError)
      | Some _ \<Rightarrow> Inl (OtherError ''TypeError'')
      | None \<Rightarrow> Inl KeyError)"

subsection \<open>A concrete world\<close>

text \<open>
  Stand-ins for the collaborators, to run the methods on concrete inputs: a reader that
  knows a few documents, a renderer that returns the text unchanged (and the empty string
  for an absent file), a remote that cannot be reached (git fails and leaves the working
  copy as it is), and a reconciler that logs how many records it was given.
\<close>

definition demo_documents :: "(string \<times> election) list" where
  "demo_documents =
     [(''{name: A, start_time: 10, end_time: 20}'',
         [''name'' \<mapsto> VStr ''A'', ''start_time'' \<mapsto> VTime 10, ''end_time'' \<mapsto> VTime 20]),
      (''{start_time: 30, end_time: 40}'',
         [''start_time'' \<mapsto> VTime 30, ''end_time'' \<mapsto> VTime 40]),
      (''{ID: alice}'', [''ID'' \<mapsto> VStr ''alice'']),
      (''{ID: bob}'', [''ID'' \<mapsto> VStr ''bob''])]"

definition demo_parse_text :: "string \<Rightarrow> exn + election" where
  "demo_parse_text text =
     (case map_of demo_documents text of None \<Rightarrow> Inl ParseError | Some e \<Rightarrow> Inr e)"

definition demo_parse_yaml :: "filesystem \<Rightarrow> path \<Rightarrow> exn + election" where
  "demo_parse_yaml f p =
     (case open_read f p of Inl x \<Rightarrow> Inl x | Inr text \<Rightarrow> demo_parse_text text)"

definition demo_renderMD :: "filesystem \<Rightarrow> string \<Rightarrow> bool \<Rightarrow> exn + string" where
  "demo_renderMD f x is_file =
     (if is_file then (case open_read f x of Inr text \<Rightarrow> Inr text | Inl _ \<Rightarrow> Inr [])
      else Inr x)"

definition demo_U :: "(unit, nat) collaborators" where
  "demo_U =
     \<lparr>git_clone = (\<lambda>remote dest f. (128, f)),
      git_pull = (\<lambda>dest f. (1, f)),
      parse_yaml_from_file = demo_parse_yaml,
      check_election_status = check_election_status_spec,
      renderMD = demo_renderMD,
      extract_candidate_info = demo_parse_text,
      extract_candidate_description = Inr,
      sync_db_with_meta = (\<lambda>d rs. (Inr (length rs), d))\<rparr>"

text \<open>A working copy with one election \<open>e1\<close> and a stray file beside it.\<close>

definition demo_fs :: filesystem where
  "demo_fs = map_of
     [(''/meta'', Dir [''elections'']),
      (''/meta/elections'', Dir [''e1'', ''README.md'']),
      (''/meta/elections/README.md'', File ''about''),
      (''/meta/elections/e1'', Dir [''election.yaml'', ''candidate-alice.md'']),
      (''/meta/elections/e1/election.yaml'', File ''{name: A, start_time: 10, end_time: 20}''),
      (''/meta/elections/e1/candidate-alice.md'', File ''{ID: alice}'')]"

text \<open>A working copy in which the second election has no \<open>election.yaml\<close>.\<close>

definition demo_fs_broken :: filesystem where
  "demo_fs_broken = map_of
     [(''/meta'', Dir [''elections'']),
      (''/meta/elections'', Dir [''e1'', ''e2'']),
      (''/meta/elections/e1'', Dir [''election.yaml'']),
      (''/meta/elections/e1/election.yaml'', File ''{name: A, start_time: 10, end_time: 20}''),
      (''/meta/elections/e2'', Dir [])]"

text \<open>The directory of the candidate scenario: two candidate files and a note.\<close>

definition demo_fs_candidates :: filesystem where
  "demo_fs_candidates = map_of
     [(''/meta'', Dir [''elections'']),
      (''/meta/elections'', Dir [''e1'']),
      (''/meta/elections/e1'', Dir [''candidate-1.md'', ''candidate-2.md'', ''notes.md'']),
      (''/meta/elections/e1/candidate-1.md'', File ''{ID: alice}''),
      (''/meta/elections/e1/candidate-2.md'', File ''{ID: bob}''),
      (''/meta/elections/e1/notes.md'', File ''remember'')]"

text \<open>The same directory with its entries listed in another order.\<close>

definition demo_fs_candidates_rev :: filesystem where
  "demo_fs_candidates_rev = map_of
     [(''/meta'', Dir [''elections'']),
      (''/meta/elections'', Dir [''e1'']),
      (''/meta/elections/e1'', Dir [''notes.md'', ''candidate-2.md'', ''candidate-1.md'']),
      (''/meta/elections/e1/candidate-1.md'', File ''{ID: alice}''),
      (''/meta/elections/e1/candidate-2.md'', File ''{ID: bob}''),
      (''/meta/elections/e1/notes.md'', File ''remember'')]"

definition demo_world :: "filesystem \<Rightarrow> int \<Rightarrow> unit world" where
  "demo_world f t = \<lparr>fs = f, now = t, db = ()\<rparr>"

text \<open>The object as the constructor leaves it, then with given containers.\<close>

definition demo_self :: "election dict \<Rightarrow> string list \<Rightarrow> election_state" where
  "demo_self s ks =
     \<lparr>META = ''/meta'', REMOTE = ''git@remote'', BRANCH = ''main'', SECRET = ''s'',
      store = s, keys = ks, self_path = ''/meta/elections''\<rparr>"

definition demo_old :: election where
  "demo_old = [''name'' \<mapsto> VStr ''Old'', ''key'' \<mapsto> VStr ''old'']"

definition demo_nameless :: election where
  "demo_nameless = [''key'' \<mapsto> VStr ''e2'']"

text \<open>The record of \<open>e1\<close> as a parse at an instant between its two boundaries builds it.\<close>

definition demo_e1 :: election where
  "demo_e1 =
     [''name'' \<mapsto> VStr ''A'', ''start_time'' \<mapsto> VTime 10, ''end_time'' \<mapsto> VTime 20,
      ''status'' \<mapsto> VStr ''ONGOING'', ''key'' \<mapsto> VStr ''e1'',
      ''description'' \<mapsto> VStr [], ''results'' \<mapsto> VStr []]"

text \<open>The fields of interest of a result, for stating concrete outcomes.\<close>

definition field_of :: "string \<Rightarrow> exn + election \<Rightarrow> exn + pyval option" where
  "field_of k res = (case res of Inl x \<Rightarrow> Inl x | Inr r \<Rightarrow> Inr (r k))"

definition fields_of :: "string \<Rightarrow> exn + election list \<Rightarrow> exn + pyval option list" where
  "fields_of k res = (case res of Inl x \<Rightarrow> Inl x | Inr rs \<Rightarrow> Inr (map (\<lambda>r. r k) rs))"

text \<open>The same collaborators with other exit statuses for the two git commands.\<close>

definition with_exit_status ::
  "(string \<Rightarrow> path \<Rightarrow> filesystem \<Rightarrow> int) \<Rightarrow> (path \<Rightarrow> filesystem \<Rightarrow> int)
     \<Rightarrow> ('db, 'log) collaborators \<Rightarrow> ('db, 'log) collaborators" where
  "with_exit_status c1 c2 U =
     U\<lparr>git_clone := (\<lambda>remote dest f. (c1 remote dest f, snd (git_clone U remote dest f))),
       git_pull := (\<lambda>dest f. (c2 dest f, snd (git_pull U dest f)))\<rparr>"

text \<open>
  Two abbreviations for stating what \<open>update_store\<close> does: the world as the git command
  leaves it, and the keys that \<open>update_keys\<close> keeps of a listing.
\<close>

definition fetched ::
  "('db, 'log) collaborators \<Rightarrow> election_state \<Rightarrow> 'db world \<Rightarrow> 'db world" where
  "fetched U self w = w\<lparr>fs := snd (run_git U self (fs w))\<rparr>"

definition fresh_keys :: "'db world \<Rightarrow> election_state \<Rightarrow> string list \<Rightarrow> string list" where
  "fresh_keys w self names =
     filter (\<lambda>k. os_path_isdir (fs w) (os_path_join (self_path self) [k])) names"

section \<open>Properties\<close>

lemmas run_defs =
  get_def fallback_def build_election_from_yaml_def update_keys_def query_def
  update_store_def run_git_def candidates_def candidate_def where_records_def all_def
  os_path_isdir_def os_path_exists_def os_listdir_def open_read_def join2_def
  resolve_def is_regular_file_def field_of_def fields_of_def

lemmas demo_defs =
  demo_U_def demo_world_def demo_self_def demo_fs_def demo_fs_broken_def
  demo_fs_candidates_def demo_fs_candidates_rev_def demo_parse_yaml_def demo_parse_text_def demo_documents_def
  demo_renderMD_def demo_old_def demo_nameless_def check_election_status_spec_def
  election_status_def demo_e1_def

subsection \<open>The store as a dictionary\<close>

lemma map_of_dict_set: "map_of (dict_set d k v) = (map_of d)(k \<mapsto> v)"
  by (induction d k v rule: dict_set.induct) (auto simp: fun_eq_iff)

lemma keys_dict_set:
  "map fst (dict_set d k v) = (if k \<in> set (map fst d) then map fst d else map fst d @ [k])"
  by (induction d k v rule: dict_set.induct) auto

lemma distinct_dict_set:
  "distinct (map fst d) \<Longrightarrow> distinct (map fst (dict_set d k v))"
  by (simp add: keys_dict_set)

subsection \<open>Reading: \<open>get\<close> and \<open>where\<close>\<close>

text \<open>
  C7. For every key that is not in \<open>self.keys\<close>, \<open>get\<close> raises the 404 of \<open>F.abort\<close>,
  whatever \<open>self.store\<close> and the disk hold for that key, and leaves the object as it was.
\<close>

theorem get_unknown_key:
  "key \<notin> set (keys self) \<Longrightarrow> get U w self key = (Inl NotFound404, self)"
  by (simp add: get_def)

theorem get_unknown_key_witness:
  "''e1'' \<notin> set (keys (demo_self [(''e1'', demo_old)] [''old'']))
   \<and> get demo_U (demo_world demo_fs 15) (demo_self [(''e1'', demo_old)] [''old'']) ''e1''
       = (Inl NotFound404, demo_self [(''e1'', demo_old)] [''old''])"
  using get_unknown_key
    [of "''e1''" "demo_self [(''e1'', demo_old)] [''old'']" demo_U "demo_world demo_fs 15"]
  by (simp add: demo_self_def)

text \<open>
  C8. A call of \<open>get\<close> that takes the fallback path (the key is known and has no entry in
  the store) returns what \<open>fallback\<close> returns and leaves \<open>self.keys\<close> and \<open>self.store\<close>,
  and the whole object, unchanged: the parsed record is not cached.
\<close>

theorem get_fallback_frame:
  assumes "key \<in> set (keys self)" and "map_of (store self) key = None"
  shows "keys (snd (get U w self key)) = keys self
       \<and> store (snd (get U w self key)) = store self
       \<and> snd (get U w self key) = self
       \<and> fst (get U w self key) = fallback U w self key"
  using assms by (simp add: get_def)

theorem get_fallback_frame_witness:
  "''e1'' \<in> set (keys (demo_self [] [''e1'']))
   \<and> map_of (store (demo_self [] [''e1''])) ''e1'' = None
   \<and> snd (get demo_U (demo_world demo_fs 15) (demo_self [] [''e1'']) ''e1'')
       = demo_self [] [''e1'']"
  using get_fallback_frame [of "''e1''" "demo_self [] [''e1'']" demo_U "demo_world demo_fs 15"]
  by (simp add: demo_self_def)

lemma where_filter_total:
  "\<forall>r\<in>set rs. r key \<noteq> None \<Longrightarrow>
     where_filter rs key value = Inr (filter (\<lambda>r. r key = Some value) rs)"
  by (induction rs) auto

lemma where_filter_raises:
  "r \<in> set rs \<Longrightarrow> r key = None \<Longrightarrow> where_filter rs key value = Inl KeyError"
  by (induction rs) (auto split: option.splits sum.splits)

text \<open>
  C3, as stated, fails: with a record in the store that has no \<open>name\<close> field,
  \<open>where('name', 'Old')\<close> raises \<open>KeyError\<close> instead of leaving that record out.
\<close>

theorem where_absent_field_counterexample:
  "where_records (demo_self [(''old'', demo_old), (''e2'', demo_nameless)] [''old'', ''e2''])
     ''name'' (VStr ''Old'') = Inl KeyError"
  by (simp add: run_defs demo_defs)

text \<open>
  C3, amended. When every record of \<open>all()\<close> has the field, \<open>where(field, value)\<close> returns
  exactly the records of \<open>all()\<close> whose field equals the value, in the order of \<open>all()\<close>;
  when some record lacks the field, the call raises \<open>KeyError\<close>.
\<close>

theorem where_records_result:
  "where_records self key value =
     (if \<forall>r\<in>set (all self). r key \<noteq> None
      then Inr (filter (\<lambda>r. r key = Some value) (all self))
      else Inl KeyError)"
  unfolding where_records_def
  using where_filter_total [of "all self" key "value"]
    where_filter_raises [of _ "all self" key "value"]
  by auto

theorem where_records_result_witness:
  "all (demo_self [(''old'', demo_old), (''e2'', demo_nameless)] [''old'', ''e2''])
       = [demo_old, demo_nameless]
   \<and> demo_old ''key'' \<noteq> None \<and> demo_nameless ''key'' \<noteq> None
   \<and> where_records (demo_self [(''old'', demo_old), (''e2'', demo_nameless)] [''old'', ''e2''])
       ''key'' (VStr ''e2'') = Inr [demo_nameless]"
  using where_records_result
    [of "demo_self [(''old'', demo_old), (''e2'', demo_nameless)] [''old'', ''e2'']"
      "''key''" "VStr ''e2''"]
  by (simp add: all_def demo_self_def demo_old_def demo_nameless_def)

subsection \<open>One candidate\<close>

text \<open>
  C10. Whenever \<open>candidate(eid, cid)\<close> returns a record, its \<open>key\<close> is \<open>cid\<close>, its
  \<open>election_key\<close> is \<open>eid\<close>, and its \<open>description\<close> is the rendering of the description
  extracted from the text of the file \<open>candidate-<cid>.md\<close> of that election.
\<close>

theorem candidate_fields:
  assumes "candidate U w self eid cid = Inr c"
  shows "c ''key'' = Some (VStr cid) \<and> c ''election_key'' = Some (VStr eid)
       \<and> (\<exists>md text html.
             open_read (fs w)
               (os_path_join (self_path self) [eid, ''candidate-'' @ cid @ ''.md'']) = Inr md
           \<and> extract_candidate_description U md = Inr text
           \<and> renderMD U (fs w) text False = Inr html
           \<and> c ''description'' = Some (VStr html))"
  using assms
  by (auto simp: candidate_def Let_def split: if_splits sum.splits)

theorem candidate_fields_witness:
  "candidate demo_U (demo_world demo_fs_candidates 15) (demo_self [] []) ''e1'' ''2''
     = Inr ([''ID'' \<mapsto> VStr ''bob'', ''key'' \<mapsto> VStr ''2'', ''election_key'' \<mapsto> VStr ''e1'',
             ''description'' \<mapsto> VStr ''{ID: bob}''])
   \<and> [''ID'' \<mapsto> VStr ''bob'', ''key'' \<mapsto> VStr ''2'', ''election_key'' \<mapsto> VStr ''e1'',
             ''description'' \<mapsto> VStr ''{ID: bob}''] ''key'' = Some (VStr ''2'')"
proof -
  have run: "candidate demo_U (demo_world demo_fs_candidates 15) (demo_self [] []) ''e1'' ''2''
     = Inr ([''ID'' \<mapsto> VStr ''bob'', ''key'' \<mapsto> VStr ''2'', ''election_key'' \<mapsto> VStr ''e1'',
             ''description'' \<mapsto> VStr ''{ID: bob}''])"
    by (simp add: run_defs demo_defs)
  from candidate_fields [OF run] run show ?thesis by simp
qed

subsection \<open>The candidates of an election\<close>

lemma candidates_loop_all:
  assumes "\<forall>f\<in>set files. str_contains ''candidate'' f \<longrightarrow>
             (\<exists>md. open_read (fs w) (os_path_join (self_path self) [eid, f]) = Inr md
                 \<and> extract_candidate_info U md = Inr (C f)) \<and> C f ''ID'' = Some (I f)"
  shows "candidates_loop U w self eid files result =
           Inr (result @ map (\<lambda>f. (C f)(''key'' \<mapsto> I f)) (filter (str_contains ''candidate'') files))"
  using assms
proof (induction files arbitrary: result)
  case Nil
  then show ?case by simp
next
  case (Cons f files)
  show ?case
  proof (cases "str_contains ''candidate'' f")
    case True
    with Cons.prems obtain md where
      "open_read (fs w) (os_path_join (self_path self) [eid, f]) = Inr md"
      "extract_candidate_info U md = Inr (C f)" "C f ''ID'' = Some (I f)"
      by auto
    with True Cons.IH [of "result @ [(C f)(''key'' \<mapsto> I f)]"] Cons.prems
    show ?thesis by (simp add: fun_upd_def)
  next
    case False
    with Cons.IH [of result] Cons.prems show ?thesis by (simp add: fun_upd_def)
  qed
qed

lemma contains_candidate_1: "str_contains ''candidate'' ''candidate-1.md''" by simp
lemma contains_candidate_2: "str_contains ''candidate'' ''candidate-2.md''" by simp
lemma contains_notes: "\<not> str_contains ''candidate'' ''notes.md''" by simp

lemma two_of_three:
  assumes "distinct files" and "set files = {a, b, n}" and "P a" and "P b" and "\<not> P n" and "a \<noteq> b"
  shows "filter P files = [a, b] \<or> filter P files = [b, a]"
proof -
  have d: "distinct (filter P files)" using assms(1) by simp
  have s: "set (filter P files) = {a, b}" using assms by auto
  have "card {a, b} = 2" using assms(6) by simp
  then have "card (set (filter P files)) = 2" by (simp only: s)
  then have "length (filter P files) = 2"
    by (simp only: distinct_card [OF d])
  then obtain x y where xy: "filter P files = [x, y]"
    by (cases "filter P files"; cases "tl (filter P files)") auto
  from s d show ?thesis unfolding xy by (auto simp: doubleton_eq_iff)
qed

text \<open>
  C9, as stated, fails: the key of a listed candidate is the \<open>ID\<close> its file declares, not
  the number in the file name. With \<open>candidate-1.md\<close> declaring \<open>alice\<close> and
  \<open>candidate-2.md\<close> declaring \<open>bob\<close>, the two records are keyed \<open>alice\<close> and \<open>bob\<close>.
\<close>

theorem candidates_keys_counterexample:
  "os_listdir (fs (demo_world demo_fs_candidates 15)) ''/meta/elections/e1''
     = Inr [''candidate-1.md'', ''candidate-2.md'', ''notes.md'']
   \<and> fields_of ''key'' (candidates demo_U (demo_world demo_fs_candidates 15) (demo_self [] []) ''e1'')
       = Inr [Some (VStr ''alice''), Some (VStr ''bob'')]"
  by (simp add: run_defs demo_defs)

text \<open>
  C9, amended. When the directory of the election lists exactly \<open>candidate-1.md\<close>,
  \<open>candidate-2.md\<close> and \<open>notes.md\<close> (in any order), and the two candidate files can be read
  and parsed and each declares an \<open>ID\<close>, then \<open>candidates\<close> returns exactly two records, one
  per candidate file in the order of the listing and none for \<open>notes.md\<close>: the result is
  the listing without \<open>notes.md\<close>, each name replaced by the information parsed from that
  file with \<open>key\<close> set to the \<open>ID\<close> declared in it.
\<close>

theorem candidates_scenario:
  assumes "os_listdir (fs w) (os_path_join (self_path self) [eid]) = Inr files"
    and "distinct files"
    and "set files = {''candidate-1.md'', ''candidate-2.md'', ''notes.md''}"
    and "open_read (fs w) (os_path_join (self_path self) [eid, ''candidate-1.md'']) = Inr md1"
    and "open_read (fs w) (os_path_join (self_path self) [eid, ''candidate-2.md'']) = Inr md2"
    and "extract_candidate_info U md1 = Inr c1" and "c1 ''ID'' = Some i1"
    and "extract_candidate_info U md2 = Inr c2" and "c2 ''ID'' = Some i2"
  shows "candidates U w self eid =
           Inr (map (\<lambda>f. if f = ''candidate-1.md'' then c1(''key'' \<mapsto> i1)
                          else c2(''key'' \<mapsto> i2))
                  (filter (\<lambda>f. f \<noteq> ''notes.md'') files))
       \<and> (filter (\<lambda>f. f \<noteq> ''notes.md'') files = [''candidate-1.md'', ''candidate-2.md'']
          \<or> filter (\<lambda>f. f \<noteq> ''notes.md'') files = [''candidate-2.md'', ''candidate-1.md''])"
proof -
  define C where "C = (\<lambda>f. if f = ''candidate-1.md'' then c1 else c2)"
  define I where "I = (\<lambda>f. if f = ''candidate-1.md'' then i1 else i2)"
  have a1: "C ''candidate-1.md'' = c1" "I ''candidate-1.md'' = i1"
    by (simp_all add: C_def I_def)
  have a2: "C ''candidate-2.md'' = c2" "I ''candidate-2.md'' = i2"
    by (simp_all add: C_def I_def)
  let ?ok = "\<lambda>f. str_contains ''candidate'' f \<longrightarrow>
             (\<exists>md. open_read (fs w) (os_path_join (self_path self) [eid, f]) = Inr md
                 \<and> extract_candidate_info U md = Inr (C f)) \<and> C f ''ID'' = Some (I f)"
  have ok1: "?ok ''candidate-1.md''"
    using assms(4,6,7) by (simp only: a1) blast
  have ok2: "?ok ''candidate-2.md''"
    using assms(5,8,9) by (simp only: a2) blast
  have ok3: "?ok ''notes.md''"
    using contains_notes by blast
  have names: "f = ''candidate-1.md'' \<or> f = ''candidate-2.md'' \<or> f = ''notes.md''"
    if "f \<in> set files" for f
    using that by (simp only: assms(3) insert_iff empty_iff simp_thms)
  have "\<forall>f\<in>set files. ?ok f"
  proof
    fix f
    assume "f \<in> set files"
    from names [OF this] show "?ok f"
    proof (elim disjE)
      assume f: "f = ''candidate-1.md''"
      show ?thesis unfolding f by (rule ok1)
    next
      assume f: "f = ''candidate-2.md''"
      show ?thesis unfolding f by (rule ok2)
    next
      assume f: "f = ''notes.md''"
      show ?thesis unfolding f by (rule ok3)
    qed
  qed
  from candidates_loop_all [OF this, of "[]"] assms(1)
  have run: "candidates U w self eid =
           Inr (map (\<lambda>f. (C f)(''key'' \<mapsto> I f)) (filter (str_contains ''candidate'') files))"
    by (simp add: candidates_def)
  have sel: "str_contains ''candidate'' f = (f \<noteq> ''notes.md'')" if "f \<in> set files" for f
  proof -
    from names [OF that] show ?thesis
    proof (elim disjE)
      assume f: "f = ''candidate-1.md''"
      show ?thesis unfolding f using contains_candidate_1 by simp
    next
      assume f: "f = ''candidate-2.md''"
      show ?thesis unfolding f using contains_candidate_2 by simp
    next
      assume f: "f = ''notes.md''"
      show ?thesis unfolding f using contains_notes by simp
    qed
  qed
  have flt: "filter (str_contains ''candidate'') files = filter (\<lambda>f. f \<noteq> ''notes.md'') files"
    by (rule filter_cong [OF refl]) (rule sel)
  have rec: "(\<lambda>f. (C f)(''key'' \<mapsto> I f)) =
      (\<lambda>f. if f = ''candidate-1.md'' then c1(''key'' \<mapsto> i1) else c2(''key'' \<mapsto> i2))"
    by (rule ext) (simp add: C_def I_def)
  have result: "candidates U w self eid =
           Inr (map (\<lambda>f. if f = ''candidate-1.md'' then c1(''key'' \<mapsto> i1)
                          else c2(''key'' \<mapsto> i2))
                  (filter (\<lambda>f. f \<noteq> ''notes.md'') files))"
    by (simp only: run flt rec)
  have two: "filter (\<lambda>f. f \<noteq> ''notes.md'') files = [''candidate-1.md'', ''candidate-2.md'']
      \<or> filter (\<lambda>f. f \<noteq> ''notes.md'') files = [''candidate-2.md'', ''candidate-1.md'']"
    by (rule two_of_three [where P = "\<lambda>f. f \<noteq> ''notes.md''", OF assms(2,3)]) simp_all
  from result two show ?thesis ..
qed

theorem candidates_scenario_witness:
  "os_listdir (fs (demo_world demo_fs_candidates 15)) ''/meta/elections/e1''
     = Inr [''candidate-1.md'', ''candidate-2.md'', ''notes.md'']
   \<and> candidates demo_U (demo_world demo_fs_candidates 15) (demo_self [] []) ''e1''
       = Inr [[''ID'' \<mapsto> VStr ''alice'', ''key'' \<mapsto> VStr ''alice''],
              [''ID'' \<mapsto> VStr ''bob'', ''key'' \<mapsto> VStr ''bob'']]
   \<and> os_listdir (fs (demo_world demo_fs_candidates_rev 15)) ''/meta/elections/e1''
     = Inr [''notes.md'', ''candidate-2.md'', ''candidate-1.md'']
   \<and> candidates demo_U (demo_world demo_fs_candidates_rev 15) (demo_self [] []) ''e1''
       = Inr [[''ID'' \<mapsto> VStr ''bob'', ''key'' \<mapsto> VStr ''bob''],
              [''ID'' \<mapsto> VStr ''alice'', ''key'' \<mapsto> VStr ''alice'']]"
proof -
  have l1: "os_listdir (fs (demo_world demo_fs_candidates 15)) ''/meta/elections/e1''
     = Inr [''candidate-1.md'', ''candidate-2.md'', ''notes.md'']"
    by (simp add: run_defs demo_defs)
  have l2: "os_listdir (fs (demo_world demo_fs_candidates_rev 15)) ''/meta/elections/e1''
     = Inr [''notes.md'', ''candidate-2.md'', ''candidate-1.md'']"
    by (simp add: run_defs demo_defs)
  have r1: "candidates demo_U (demo_world demo_fs_candidates 15) (demo_self [] []) ''e1''
       = Inr [[''ID'' \<mapsto> VStr ''alice'', ''key'' \<mapsto> VStr ''alice''],
              [''ID'' \<mapsto> VStr ''bob'', ''key'' \<mapsto> VStr ''bob'']]"
    using candidates_scenario
      [where w = "demo_world demo_fs_candidates 15" and self = "demo_self [] []"
         and eid = "''e1''" and files = "[''candidate-1.md'', ''candidate-2.md'', ''notes.md'']"
         and ?md1.0 = "''{ID: alice}''" and ?md2.0 = "''{ID: bob}''" and U = demo_U
         and ?c1.0 = "[''ID'' \<mapsto> VStr ''alice'']" and ?i1.0 = "VStr ''alice''"
         and ?c2.0 = "[''ID'' \<mapsto> VStr ''bob'']" and ?i2.0 = "VStr ''bob''"]
    by (simp add: run_defs demo_defs)
  have r2: "candidates demo_U (demo_world demo_fs_candidates_rev 15) (demo_self [] []) ''e1''
       = Inr [[''ID'' \<mapsto> VStr ''bob'', ''key'' \<mapsto> VStr ''bob''],
              [''ID'' \<mapsto> VStr ''alice'', ''key'' \<mapsto> VStr ''alice'']]"
    using candidates_scenario
      [where w = "demo_world demo_fs_candidates_rev 15" and self = "demo_self [] []"
         and eid = "''e1''" and files = "[''notes.md'', ''candidate-2.md'', ''candidate-1.md'']"
         and ?md1.0 = "''{ID: alice}''" and ?md2.0 = "''{ID: bob}''" and U = demo_U
         and ?c1.0 = "[''ID'' \<mapsto> VStr ''alice'']" and ?i1.0 = "VStr ''alice''"
         and ?c2.0 = "[''ID'' \<mapsto> VStr ''bob'']" and ?i2.0 = "VStr ''bob''"]
    by (simp add: run_defs demo_defs)
  from l1 r1 l2 r2 show ?thesis by (intro conjI)
qed

subsection \<open>Runs in the concrete world\<close>

lemma demo_self_sel:
  "store (demo_self s ks) = s" "keys (demo_self s ks) = ks"
  "self_path (demo_self s ks) = ''/meta/elections''" "META (demo_self s ks) = ''/meta''"
  by (simp_all add: demo_self_def)

lemma build_e1:
  "build_election_from_yaml demo_U (demo_world demo_fs 15) ''/meta/elections/e1'' = Inr demo_e1"
  by (simp add: run_defs demo_defs)

lemma build_e1_broken:
  "build_election_from_yaml demo_U (demo_world demo_fs_broken 15) ''/meta/elections/e1'' = Inr demo_e1"
  by (simp add: run_defs demo_defs)

lemma build_e2_broken:
  "build_election_from_yaml demo_U (demo_world demo_fs_broken 15) ''/meta/elections/e2'' = Inl FileNotFoundError"
  by (simp add: run_defs demo_defs)

lemma keys_demo:
  "update_keys (demo_world demo_fs 15) (demo_self s ks) = (Inr (), demo_self s [''e1''])"
  by (simp add: run_defs demo_defs)

lemma keys_broken:
  "update_keys (demo_world demo_fs_broken 15) (demo_self s ks) = (Inr (), demo_self s [''e1'', ''e2''])"
  by (simp add: run_defs demo_defs)

lemma query_demo:
  "query demo_U (demo_world demo_fs 15) (demo_self s [''e1'']) = (Inr (), demo_self (dict_set s ''e1'' demo_e1) [''e1''])"
  using build_e1 by (simp add: query_def demo_self_def join2_def)

lemma query_broken:
  "query demo_U (demo_world demo_fs_broken 15) (demo_self s [''e1'', ''e2''])
     = (Inl FileNotFoundError, demo_self (dict_set s ''e1'' demo_e1) [''e1'', ''e2''])"
  using build_e1_broken build_e2_broken by (simp add: query_def demo_self_def join2_def)

lemma run_git_demo:
  "run_git demo_U (demo_self s ks) demo_fs = (1, demo_fs)"
  by (simp add: run_git_def demo_U_def demo_self_def demo_fs_def os_path_isdir_def
      resolve_def is_regular_file_def)

lemma run_git_broken:
  "run_git demo_U (demo_self s ks) demo_fs_broken = (1, demo_fs_broken)"
  by (simp add: run_git_def demo_U_def demo_self_def demo_fs_broken_def os_path_isdir_def
      resolve_def is_regular_file_def)

lemma update_store_demo:
  "update_store demo_U (demo_world demo_fs 15) (demo_self s ks)
     = (Inr (length (dict_set s ''e1'' demo_e1)), demo_self (dict_set s ''e1'' demo_e1) [''e1''],
        demo_world demo_fs 15)"
proof -
  have w: "(demo_world demo_fs 15)\<lparr>fs := demo_fs\<rparr> = demo_world demo_fs 15"
    by (simp add: demo_world_def)
  have s: "sync_db_with_meta demo_U d rs = (Inr (length rs), d)" for d rs
    by (simp add: demo_U_def)
  have d: "db (demo_world demo_fs 15) = ()" "fs (demo_world demo_fs 15) = demo_fs"
    by (simp_all add: demo_world_def)
  show ?thesis
    by (simp add: update_store_def d run_git_demo w keys_demo query_demo s all_def demo_self_sel)
qed

lemma update_store_broken:
  "update_store demo_U (demo_world demo_fs_broken 15) (demo_self s ks)
     = (Inl FileNotFoundError, demo_self (dict_set s ''e1'' demo_e1) [''e1'', ''e2''],
        demo_world demo_fs_broken 15)"
proof -
  have w: "(demo_world demo_fs_broken 15)\<lparr>fs := demo_fs_broken\<rparr> = demo_world demo_fs_broken 15"
    by (simp add: demo_world_def)
  have d: "fs (demo_world demo_fs_broken 15) = demo_fs_broken"
    by (simp_all add: demo_world_def)
  show ?thesis
    by (simp add: update_store_def d run_git_broken w keys_broken query_broken)
qed

subsection \<open>The status of a parsed election\<close>

lemma election_status_cases:
  "T1 < T2 \<Longrightarrow>
     (election_status t T1 T2 = UPCOMING \<longleftrightarrow> t < T1)
   \<and> (election_status t T1 T2 = ONGOING \<longleftrightarrow> T1 \<le> t \<and> t \<le> T2)
   \<and> (election_status t T1 T2 = ENDED \<longleftrightarrow> T2 < t)"
  by (auto simp: election_status_def)

text \<open>
  C6. With the status rule of the specification as \<open>check_election_status\<close>: for an
  election whose definition file gives the boundaries \<open>T1 < T2\<close>, every parse at the
  instant \<open>now\<close> returns a record whose \<open>status\<close> is the status of \<open>now\<close>, \<open>T1\<close>, \<open>T2\<close>,
  and that status is \<open>UPCOMING\<close> exactly when \<open>now < T1\<close>, \<open>ONGOING\<close> exactly when
  \<open>T1 \<le> now \<le> T2\<close> and \<open>ENDED\<close> exactly when \<open>now > T2\<close>.
\<close>

theorem status_derivation:
  assumes "T1 < T2"
    and "check_election_status U = check_election_status_spec"
    and "parse_yaml_from_file U (fs w) (os_path_join p [''election.yaml'']) = Inr e"
    and "e ''start_time'' = Some (VTime T1)" and "e ''end_time'' = Some (VTime T2)"
    and "renderMD U (fs w) (os_path_join p [''election_desc.md'']) True = Inr d"
    and "renderMD U (fs w) (os_path_join p [''results.md'']) True = Inr res"
  shows "(\<exists>r. build_election_from_yaml U w p = Inr r
            \<and> r ''status'' = Some (status_label (election_status (now w) T1 T2)))
       \<and> (election_status (now w) T1 T2 = UPCOMING \<longleftrightarrow> now w < T1)
       \<and> (election_status (now w) T1 T2 = ONGOING \<longleftrightarrow> T1 \<le> now w \<and> now w \<le> T2)
       \<and> (election_status (now w) T1 T2 = ENDED \<longleftrightarrow> T2 < now w)"
proof -
  have "check_election_status U (now w) e = Inr (status_label (election_status (now w) T1 T2))"
    using assms(2,4,5) by (simp add: check_election_status_spec_def)
  then have "\<exists>r. build_election_from_yaml U w p = Inr r
            \<and> r ''status'' = Some (status_label (election_status (now w) T1 T2))"
    using assms(3,6,7) by (simp add: build_election_from_yaml_def)
  with election_status_cases [OF assms(1), of "now w"] show ?thesis by blast
qed

theorem status_derivation_witness:
  "election_status 10 10 20 = ONGOING
   \<and> election_status 20 10 20 = ONGOING
   \<and> field_of ''status''
        (build_election_from_yaml demo_U (demo_world demo_fs 10) ''/meta/elections/e1'')
       = Inr (Some (VStr ''ONGOING''))"
  using status_derivation
    [of 10 20 demo_U "demo_world demo_fs 10" "''/meta/elections/e1''"
        "[''name'' \<mapsto> VStr ''A'', ''start_time'' \<mapsto> VTime 10, ''end_time'' \<mapsto> VTime 20]"
        "[]" "[]"]
  by (simp add: run_defs demo_defs)

subsection \<open>The full refresh\<close>

lemma query_loop_frame:
  "query_loop U w ks self = (res, self') \<Longrightarrow> \<exists>s. self' = self\<lparr>store := s\<rparr>"
proof (induction ks arbitrary: self)
  case Nil
  then show ?case by (auto intro: exI [of _ "store self"])
next
  case (Cons e es)
  show ?case
  proof (cases "build_election_from_yaml U w (os_path_join (self_path self) [e])")
    case (Inl x)
    with Cons.prems show ?thesis by (auto intro: exI [of _ "store self"])
  next
    case (Inr r)
    with Cons.prems
    have "query_loop U w es (self\<lparr>store := dict_set (store self) e r\<rparr>) = (res, self')"
      by simp
    from Cons.IH [OF this] show ?thesis by auto
  qed
qed

lemma query_loop_success:
  "query_loop U w ks self = (Inr u, self') \<Longrightarrow>
     set (map fst (store self')) = set (map fst (store self)) \<union> set ks
   \<and> (\<forall>k\<in>set ks. \<exists>r. build_election_from_yaml U w (os_path_join (self_path self) [k]) = Inr r
                       \<and> map_of (store self') k = Some r)
   \<and> (\<forall>k. k \<notin> set ks \<longrightarrow> map_of (store self') k = map_of (store self) k)
   \<and> (distinct (map fst (store self)) \<longrightarrow> distinct (map fst (store self')))"
proof (induction ks arbitrary: self)
  case Nil
  then show ?case by simp
next
  case (Cons e es)
  from Cons.prems obtain r where
    r: "build_election_from_yaml U w (os_path_join (self_path self) [e]) = Inr r"
    and rest: "query_loop U w es (self\<lparr>store := dict_set (store self) e r\<rparr>) = (Inr u, self')"
    by (auto split: sum.splits)
  note IH = Cons.IH [OF rest]
  have dom: "set (map fst (store self')) = set (map fst (store self)) \<union> set (e # es)"
    using IH by (auto simp: keys_dict_set split: if_splits)
  have old: "\<forall>k. k \<notin> set (e # es) \<longrightarrow> map_of (store self') k = map_of (store self) k"
    using IH by (simp add: map_of_dict_set)
  have dist: "distinct (map fst (store self)) \<longrightarrow> distinct (map fst (store self'))"
    using IH by (simp add: distinct_dict_set)
  have new: "\<forall>k\<in>set (e # es).
      \<exists>r. build_election_from_yaml U w (os_path_join (self_path self) [k]) = Inr r
        \<and> map_of (store self') k = Some r"
  proof
    fix k assume k: "k \<in> set (e # es)"
    show "\<exists>r. build_election_from_yaml U w (os_path_join (self_path self) [k]) = Inr r
                       \<and> map_of (store self') k = Some r"
    proof (cases "k \<in> set es")
      case True
      with IH show ?thesis by simp
    next
      case False
      with k have "k = e" by simp
      moreover from False IH
      have "map_of (store self') k = map_of (dict_set (store self) e r) k"
        by simp
      ultimately show ?thesis using r by (simp add: map_of_dict_set)
    qed
  qed
  from dom new old dist show ?case by blast
qed

lemma query_loop_failure:
  assumes "\<forall>e\<in>set ks1.
      build_election_from_yaml U w (os_path_join (self_path self) [e]) = Inr (R e)"
    and "build_election_from_yaml U w (os_path_join (self_path self) [k]) = Inl x"
  shows "query_loop U w (ks1 @ k # ks2) self =
           (Inl x, self\<lparr>store := foldl (\<lambda>s e. dict_set s e (R e)) (store self) ks1\<rparr>)"
  using assms
proof (induction ks1 arbitrary: self)
  case Nil
  then show ?case by simp
next
  case (Cons e es)
  let ?self1 = "self\<lparr>store := dict_set (store self) e (R e)\<rparr>"
  have "query_loop U w (es @ k # ks2) ?self1 =
          (Inl x, ?self1\<lparr>store := foldl (\<lambda>s e. dict_set s e (R e)) (store ?self1) es\<rparr>)"
    using Cons.prems by (intro Cons.IH) simp_all
  then show ?case using Cons.prems by simp
qed

text \<open>
  C4, as stated, fails: an entry whose key is no longer in the listing stays in the store.
  With \<open>old\<close> in the store and only \<open>e1\<close> on disk, a sync leaves \<open>old\<close> and \<open>e1\<close> in the
  store while \<open>self.keys\<close> is \<open>[e1]\<close>.
\<close>

theorem stale_entry_counterexample:
  "update_store demo_U (demo_world demo_fs 15) (demo_self [(''old'', demo_old)] [''old''])
     = (Inr 2, demo_self [(''old'', demo_old), (''e1'', demo_e1)] [''e1''], demo_world demo_fs 15)
   \<and> ''old'' \<notin> set (keys (demo_self [(''old'', demo_old), (''e1'', demo_e1)] [''e1'']))
   \<and> map fst (store (demo_self [(''old'', demo_old), (''e1'', demo_e1)] [''e1'']))
       = [''old'', ''e1'']"
  by (simp add: update_store_demo demo_self_sel)

text \<open>
  C4, amended. After a sync that completes, \<open>self.keys\<close> is the fresh listing, and the
  store holds, for every key of \<open>self.keys\<close>, the record freshly parsed from that key's
  directory; the entries of all other keys are the ones the store held before (they are
  neither removed nor changed), so the keys of the store are the old ones together with
  \<open>self.keys\<close>, and they stay unique.
\<close>

theorem refresh_merges_into_store:
  assumes "update_store U w self = (Inr log, self', w')"
  shows "set (map fst (store self')) = set (map fst (store self)) \<union> set (keys self')
       \<and> (\<forall>k\<in>set (keys self').
             \<exists>r. build_election_from_yaml U (w\<lparr>fs := snd (run_git U self (fs w))\<rparr>)
                    (os_path_join (self_path self) [k]) = Inr r
               \<and> map_of (store self') k = Some r)
       \<and> (\<forall>k. k \<notin> set (keys self') \<longrightarrow> map_of (store self') k = map_of (store self) k)
       \<and> (distinct (map fst (store self)) \<longrightarrow> distinct (map fst (store self')))
       \<and> (\<exists>names. os_listdir (snd (run_git U self (fs w))) (self_path self) = Inr names
             \<and> keys self' =
                 filter (\<lambda>k. os_path_isdir (snd (run_git U self (fs w)))
                                (os_path_join (self_path self) [k])) names)"
proof -
  define w1 where "w1 = w\<lparr>fs := snd (run_git U self (fs w))\<rparr>"
  from assms obtain u1 self1 u2 where
    k: "update_keys w1 self = (Inr u1, self1)" and q: "query U w1 self1 = (Inr u2, self')"
    unfolding update_store_def Let_def w1_def [symmetric]
    by (auto split: prod.splits sum.splits)
  from k obtain names where
    names: "os_listdir (fs w1) (self_path self) = Inr names"
    and self1: "self1 = self\<lparr>keys :=
        filter (\<lambda>k. os_path_isdir (fs w1) (os_path_join (self_path self) [k])) names\<rparr>"
    by (auto simp: update_keys_def split: sum.splits)
  from q have ql: "query_loop U w1 (keys self1) self1 = (Inr u2, self')"
    by (simp add: query_def)
  from query_loop_frame [OF ql] have keys': "keys self' = keys self1" by auto
  have fs1: "fs w1 = snd (run_git U self (fs w))" by (simp add: w1_def)
  have st: "store self1 = store self" "self_path self1 = self_path self"
    by (simp_all add: self1)
  have listing: "\<exists>names. os_listdir (snd (run_git U self (fs w))) (self_path self) = Inr names
             \<and> keys self' =
                 filter (\<lambda>k. os_path_isdir (snd (run_git U self (fs w)))
                                (os_path_join (self_path self) [k])) names"
    using names self1 keys' fs1 by auto
  from query_loop_success [OF ql] listing show ?thesis
    unfolding keys' [symmetric] st w1_def by blast
qed

theorem refresh_merges_into_store_witness:
  "update_store demo_U (demo_world demo_fs 15) (demo_self [(''old'', demo_old)] [''old''])
     = (Inr 2, demo_self [(''old'', demo_old), (''e1'', demo_e1)] [''e1''], demo_world demo_fs 15)
   \<and> set (map fst (store (demo_self [(''old'', demo_old), (''e1'', demo_e1)] [''e1''])))
       = {''old'', ''e1''}
   \<and> map_of (store (demo_self [(''old'', demo_old), (''e1'', demo_e1)] [''e1''])) ''old''
       = Some demo_old"
proof -
  have run: "update_store demo_U (demo_world demo_fs 15)
               (demo_self [(''old'', demo_old)] [''old''])
     = (Inr 2, demo_self [(''old'', demo_old), (''e1'', demo_e1)] [''e1''],
        demo_world demo_fs 15)"
    by (simp add: update_store_demo)
  from refresh_merges_into_store [OF run] run show ?thesis
    by (simp add: demo_self_sel)
qed

text \<open>
  C5, as stated, fails in its second half: the error of the parser does reach the caller,
  but the records written before it stay. With \<open>e1\<close> well formed and \<open>e2\<close> without a
  definition file, a sync on an empty store raises and leaves \<open>e1\<close> in the store.
\<close>

theorem partial_commit_counterexample:
  "update_store demo_U (demo_world demo_fs_broken 15) (demo_self [] [])
     = (Inl FileNotFoundError, demo_self [(''e1'', demo_e1)] [''e1'', ''e2''],
        demo_world demo_fs_broken 15)
   \<and> store (demo_self [] []) = []
   \<and> store (demo_self [(''e1'', demo_e1)] [''e1'', ''e2'']) = [(''e1'', demo_e1)]"
  by (simp add: update_store_broken demo_self_sel)

text \<open>
  C5, amended. If during \<open>query\<close> the parse of a key fails, the error reaches the caller
  at once (no later key is parsed), and the store then holds the records written for the
  keys that precede the failing one in \<open>self.keys\<close>, on top of what it held before; the
  entries of the failing key and of the later keys are as before the refresh.
\<close>

theorem query_fails_fast_keeping_prefix:
  assumes "keys self = ks1 @ k # ks2"
    and "\<forall>e\<in>set ks1.
      build_election_from_yaml U w (os_path_join (self_path self) [e]) = Inr (R e)"
    and "build_election_from_yaml U w (os_path_join (self_path self) [k]) = Inl x"
  shows "query U w self =
           (Inl x, self\<lparr>store := foldl (\<lambda>s e. dict_set s e (R e)) (store self) ks1\<rparr>)"
  unfolding query_def assms(1) by (rule query_loop_failure [OF assms(2,3)])

theorem query_fails_fast_keeping_prefix_witness:
  "build_election_from_yaml demo_U (demo_world demo_fs_broken 15) ''/meta/elections/e1''
     = Inr demo_e1
   \<and> build_election_from_yaml demo_U (demo_world demo_fs_broken 15) ''/meta/elections/e2''
     = Inl FileNotFoundError
   \<and> query demo_U (demo_world demo_fs_broken 15) (demo_self [] [''e1'', ''e2''])
     = (Inl FileNotFoundError, demo_self [(''e1'', demo_e1)] [''e1'', ''e2''])"
  using query_fails_fast_keeping_prefix
    [of "demo_self [] [''e1'', ''e2'']" "[''e1'']" "''e2''" "[]" demo_U
        "demo_world demo_fs_broken 15" "\<lambda>_. demo_e1" FileNotFoundError]
  by (simp add: build_e1_broken build_e2_broken demo_self_sel join2_def) (simp add: demo_self_def)

subsection \<open>The fetch\<close>

lemma build_with_exit_status:
  "build_election_from_yaml (with_exit_status c1 c2 U) w p = build_election_from_yaml U w p"
  by (simp add: build_election_from_yaml_def with_exit_status_def cong: sum.case_cong)

lemma query_loop_with_exit_status:
  "query_loop (with_exit_status c1 c2 U) w ks self = query_loop U w ks self"
  by (induction ks arbitrary: self)
    (simp_all add: build_with_exit_status cong: sum.case_cong)

text \<open>
  C2, as stated, fails: with a pull that exits with status 1 and leaves the working copy
  as it is, \<open>update_store\<close> raises nothing, returns its log, and has replaced the empty
  \<open>self.keys\<close> and \<open>self.store\<close> by what is on disk.
\<close>

theorem failed_fetch_counterexample:
  "fst (run_git demo_U (demo_self [] []) demo_fs) = 1
   \<and> keys (demo_self [] []) = [] \<and> store (demo_self [] []) = []
   \<and> update_store demo_U (demo_world demo_fs 15) (demo_self [] [])
       = (Inr 1, demo_self [(''e1'', demo_e1)] [''e1''], demo_world demo_fs 15)"
  by (simp add: update_store_demo run_git_demo demo_self_sel)

lemma update_store_exit_status_irrelevant:
  "update_store (with_exit_status c1 c2 U) w self = update_store U w self"
proof -
  have git: "snd (run_git (with_exit_status c1 c2 U) self f) = snd (run_git U self f)" for f
    by (simp add: run_git_def with_exit_status_def)
  have sync: "sync_db_with_meta (with_exit_status c1 c2 U) = sync_db_with_meta U"
    by (simp add: with_exit_status_def)
  show ?thesis
    by (simp add: update_store_def query_def git sync query_loop_with_exit_status
        cong: sum.case_cong prod.case_cong)
qed

lemma query_keeps_keys: "keys (snd (query U w self)) = keys self"
proof -
  obtain res self' where q: "query_loop U w (keys self) self = (res, self')"
    by (cases "query_loop U w (keys self) self")
  from query_loop_frame [OF q] q show ?thesis by (auto simp: query_def)
qed

text \<open>
  C2, amended. When the fetch step of \<open>update_store\<close> fails (the git command exits with a
  status other than \<open>0\<close>), the failure is not surfaced and the later steps are not skipped:
  the exit status is dropped, and the outcome is the same for every exit status. Key
  discovery runs on the working copy as the command left it. If the listing raises, that
  error is what the caller gets, and the object is as before the call. Otherwise
  \<open>self.keys\<close> is replaced by the subdirectories of the fresh listing and \<open>query\<close> runs with
  them: if it raises, the caller gets its error and the object as \<open>query\<close> left it; if it
  completes, the records it left in the store are reconciled with the database and the
  caller gets the reconciler's outcome.
\<close>

theorem failed_fetch_still_refreshes:
  assumes "fst (run_git U self (fs w)) \<noteq> 0"
  shows "update_store (with_exit_status c1 c2 U) w self = update_store U w self
       \<and> (case os_listdir (fs (fetched U self w)) (self_path self) of
            Inl x \<Rightarrow> update_store U w self = (Inl x, self, fetched U self w)
          | Inr names \<Rightarrow>
              keys (fst (snd (update_store U w self))) = fresh_keys (fetched U self w) self names
            \<and> (case query U (fetched U self w)
                       (self\<lparr>keys := fresh_keys (fetched U self w) self names\<rparr>) of
                 (Inl x, self2) \<Rightarrow> update_store U w self = (Inl x, self2, fetched U self w)
               | (Inr u, self2) \<Rightarrow>
                   update_store U w self =
                     (fst (sync_db_with_meta U (db w) (all self2)), self2,
                      (fetched U self w)
                        \<lparr>db := snd (sync_db_with_meta U (db w) (all self2))\<rparr>)))"
proof -
  let ?w1 = "fetched U self w"
  have w1: "w\<lparr>fs := snd (run_git U self (fs w))\<rparr> = ?w1" "db ?w1 = db w"
    by (simp_all add: fetched_def)
  show ?thesis
  proof (cases "os_listdir (fs ?w1) (self_path self)")
    case (Inl x)
    then have "update_store U w self = (Inl x, self, ?w1)"
      by (simp add: update_store_def w1 update_keys_def)
    with Inl update_store_exit_status_irrelevant [of c1 c2 U w self] show ?thesis
      by simp
  next
    case (Inr names)
    let ?self1 = "self\<lparr>keys := fresh_keys ?w1 self names\<rparr>"
    from Inr have k: "update_keys ?w1 self = (Inr (), ?self1)"
      by (simp add: update_keys_def fresh_keys_def)
    obtain res self2 where q: "query U ?w1 ?self1 = (res, self2)"
      by (cases "query U ?w1 ?self1")
    from query_keeps_keys [of U ?w1 ?self1] q
    have keys2: "keys self2 = fresh_keys ?w1 self names" by simp
    have run: "(case res of
                  Inl x \<Rightarrow> update_store U w self = (Inl x, self2, ?w1)
                | Inr u \<Rightarrow>
                   update_store U w self =
                     (fst (sync_db_with_meta U (db w) (all self2)), self2,
                      ?w1\<lparr>db := snd (sync_db_with_meta U (db w) (all self2))\<rparr>))"
      by (cases res; cases "sync_db_with_meta U (db w) (all self2)";
          cases "fst (sync_db_with_meta U (db w) (all self2))")
         (simp_all add: update_store_def w1 k q)
    then have "keys (fst (snd (update_store U w self))) = fresh_keys ?w1 self names"
      using keys2 by (cases res) simp_all
    with run Inr q update_store_exit_status_irrelevant [of c1 c2 U w self] show ?thesis
      by simp
  qed
qed

theorem failed_fetch_still_refreshes_witness:
  "fst (run_git demo_U (demo_self [] []) (fs (demo_world Map.empty 15))) = 128
   \<and> update_store demo_U (demo_world Map.empty 15) (demo_self [] [])
       = (Inl FileNotFoundError, demo_self [] [], demo_world Map.empty 15)
   \<and> fst (run_git demo_U (demo_self [] [''gone'']) (fs (demo_world demo_fs 15))) = 1
   \<and> keys (fst (snd (update_store demo_U (demo_world demo_fs 15) (demo_self [] [''gone''])))) 
       = [''e1'']"
proof -
  have g1: "fst (run_git demo_U (demo_self [] []) (fs (demo_world Map.empty 15))) = 128"
    by (simp add: run_defs demo_defs)
  have g2: "fst (run_git demo_U (demo_self [] [''gone'']) (fs (demo_world demo_fs 15))) = 1"
    by (simp add: run_defs demo_defs)
  have f1: "fetched demo_U (demo_self [] []) (demo_world Map.empty 15)
              = demo_world Map.empty 15"
    by (simp add: fetched_def run_defs demo_defs)
  have f2: "fetched demo_U (demo_self [] [''gone'']) (demo_world demo_fs 15)
              = demo_world demo_fs 15"
    by (simp add: fetched_def run_git_demo demo_world_def)
  have l1: "os_listdir (fs (demo_world Map.empty 15)) (self_path (demo_self [] []))
              = Inl FileNotFoundError"
    by (simp add: run_defs demo_defs)
  have l2: "os_listdir (fs (demo_world demo_fs 15)) (self_path (demo_self [] [''gone'']))
              = Inr [''e1'', ''README.md'']"
    by (simp add: run_defs demo_defs)
  have k2: "fresh_keys (demo_world demo_fs 15) (demo_self [] [''gone''])
              [''e1'', ''README.md''] = [''e1'']"
    by (simp add: fresh_keys_def run_defs demo_defs)
  have u1: "update_store demo_U (demo_world Map.empty 15) (demo_self [] [])
       = (Inl FileNotFoundError, demo_self [] [], demo_world Map.empty 15)"
    using failed_fetch_still_refreshes
      [where U = demo_U and self = "demo_self [] []" and w = "demo_world Map.empty 15"]
    by (simp add: g1 f1 l1)
  have u2: "keys (fst (snd (update_store demo_U (demo_world demo_fs 15)
               (demo_self [] [''gone''])))) = [''e1'']"
    using failed_fetch_still_refreshes
      [where U = demo_U and self = "demo_self [] [''gone'']" and w = "demo_world demo_fs 15"]
    by (simp add: g2 f2 l2 k2)
  from g1 u1 g2 u2 show ?thesis by (intro conjI)
qed

subsection \<open>The fallback read\<close>

lemma split_on_nonempty: "split_on c s \<noteq> []"
  by (induction s) (auto split: list.splits)

lemma split_on_no_separator: "c \<notin> set s \<Longrightarrow> split_on c s = [s]"
  by (induction s) auto

lemma last_split_on_Cons:
  "last (split_on c (x # s)) = (if c \<in> set s \<or> x = c then last (split_on c s) else x # s)"
proof (cases "x = c")
  case True
  then show ?thesis by (simp add: split_on_nonempty)
next
  case False
  show ?thesis
  proof (cases "c \<in> set s")
    case False
    with \<open>x \<noteq> c\<close> show ?thesis by (simp add: split_on_no_separator)
  next
    case True
    then have "length (split_on c s) \<ge> 2"
      by (induction s) (auto split: list.splits simp: split_on_nonempty Suc_le_eq)
    then obtain a b rest where "split_on c s = a # b # rest"
      by (cases "split_on c s"; cases "tl (split_on c s)") auto
    with True \<open>x \<noteq> c\<close> show ?thesis by simp
  qed
qed

lemma last_split_on_append:
  "last (split_on c (xs @ c # ys)) = last (split_on c ys)"
proof (induction xs)
  case Nil
  show ?case by (simp add: split_on_nonempty)
next
  case (Cons x xs)
  have "last (split_on c (x # (xs @ c # ys))) = last (split_on c (xs @ c # ys))"
    by (subst last_split_on_Cons) simp
  with Cons show ?case by simp
qed

lemma last_split_join2:
  assumes "CHR ''/'' \<notin> set b" and "b \<noteq> []"
  shows "last (split_on CHR ''/'' (join2 a b)) = b"
proof -
  have hd: "hd b \<noteq> CHR ''/''" using assms by (cases b) auto
  have b: "last (split_on CHR ''/'' b) = b" using assms(1) by (simp add: split_on_no_separator)
  show ?thesis
  proof (cases "a = []")
    case True
    with hd b show ?thesis by (simp add: join2_def)
  next
    case False
    show ?thesis
    proof (cases "last a = CHR ''/''")
      case True
      with False obtain a' where a': "a = a' @ [CHR ''/'']"
        by (metis append_butlast_last_id)
      have "join2 a b = a @ b"
        using True hd by (simp add: join2_def)
      also have "\<dots> = a' @ CHR ''/'' # b"
        by (simp add: a')
      finally show ?thesis
        by (simp only: last_split_on_append b)
    next
      case nl: False
      with False hd b last_split_on_append [of "CHR ''/''" a b] show ?thesis
        by (simp add: join2_def)
    qed
  qed
qed

text \<open>
  Whatever the key, a record that \<open>fallback\<close> returns has the name of the definition file
  as its \<open>key\<close>: the path that \<open>build_election_from_yaml\<close> splits ends in that name.
\<close>

lemma fallback_key_field:
  assumes "fallback U w self key = Inr r"
  shows "r ''key'' = Some (VStr ''election.yaml'')"
proof -
  have "last (split_on CHR ''/'' (os_path_join (self_path self) [key, ''election.yaml'']))
          = ''election.yaml''"
    using last_split_join2 [of "''election.yaml''" "join2 (self_path self) key"] by simp
  with assms show ?thesis
    by (auto simp: fallback_def build_election_from_yaml_def split: sum.splits)
qed

text \<open>
  The path that \<open>fallback\<close> makes the parser read is the definition file's path with
  \<open>election.yaml\<close> joined to it once more.
\<close>

lemma fallback_reads_below_the_file:
  "parse_yaml_from_file U (fs w)
      (os_path_join (self_path self) [key, ''election.yaml'', ''election.yaml'']) = Inl x
   \<Longrightarrow> fallback U w self key = Inl x"
  by (simp add: fallback_def build_election_from_yaml_def)

text \<open>
  C1 at a concrete input: \<open>e1\<close> is a known key with no entry in the store, and its
  directory holds a well-formed \<open>election.yaml\<close>. \<open>get\<close> raises (it looks for
  \<open>e1/election.yaml/election.yaml\<close>), while parsing the directory of \<open>e1\<close>, as the full
  refresh does, gives the record of \<open>e1\<close> with \<open>key\<close> equal to \<open>e1\<close>.
\<close>

theorem fallback_divergence:
  "''e1'' \<in> set (keys (demo_self [] [''e1'']))
   \<and> map_of (store (demo_self [] [''e1''])) ''e1'' = None
   \<and> fst (get demo_U (demo_world demo_fs 15) (demo_self [] [''e1'']) ''e1'')
       = Inl NotADirectoryError
   \<and> build_election_from_yaml demo_U (demo_world demo_fs 15) ''/meta/elections/e1''
       = Inr demo_e1
   \<and> demo_e1 ''key'' = Some (VStr ''e1'')"
proof -
  have "fst (get demo_U (demo_world demo_fs 15) (demo_self [] [''e1'']) ''e1'')
       = Inl NotADirectoryError"
    by (simp add: run_defs demo_defs)
  then show ?thesis
    by (simp add: build_e1 demo_self_sel) (simp add: demo_e1_def)
qed

end
